theory Spec2Isabelle
  imports Main "HOL-Library.Log_Nat" "HOL-Library.AList"
begin

section \<open>Python values\<close>

subsection \<open>Floats\<close>

text \<open>
  A Python \<^verbatim>\<open>float\<close> is an IEEE 754 binary64 number. It is modelled by its sign bit and
  the rational magnitude it denotes, so that \<open>Finite False 0\<close> is \<^verbatim>\<open>0.0\<close> and
  \<open>Finite True 0\<close> is \<^verbatim>\<open>-0.0\<close>; the two infinities and NaN are values of their own.
  Every arithmetic result is rounded to the nearest binary64 number, ties to even.
\<close>

datatype pyfloat = Finite bool rat | Infinity bool | NaN

definition pow2 :: "int \<Rightarrow> rat" where
  "pow2 k = (if 0 \<le> k then 2 ^ nat k else 1 / 2 ^ nat (- k))"

text \<open>The integer \<open>e\<close> with \<open>2^e \<le> q < 2^(e+1)\<close>, for a positive rational \<open>q\<close>.\<close>

definition floor_log2 :: "rat \<Rightarrow> int" where
  "floor_log2 q =
     (let d = bitlen (fst (quotient_of q)) - bitlen (snd (quotient_of q))
      in if pow2 d \<le> q then d else d - 1)"

definition round_half_even :: "rat \<Rightarrow> int" where
  "round_half_even x =
     (let f = \<lfloor>x\<rfloor>; r = x - of_int f
      in if r < 1 / 2 then f
         else if 1 / 2 < r then f + 1
         else if even f then f else f + 1)"

text \<open>
  Rounding a magnitude \<open>q \<ge> 0\<close> with sign \<open>s\<close>: 53 significant bits, the least exponent
  -1022 (below it the numbers are subnormal, spaced \<open>2^-1074\<close> apart), and overflow to
  infinity once the rounded magnitude reaches \<open>2^1024\<close>.
\<close>

definition round_to_double :: "bool \<Rightarrow> rat \<Rightarrow> pyfloat" where
  "round_to_double s q =
     (if q = 0 then Finite s 0
      else let e = max (floor_log2 q) (- 1022);
               ulp = pow2 (e - 52);
               v = of_int (round_half_even (q / ulp)) * ulp
           in if 1024 \<le> floor_log2 v then Infinity s else Finite s v)"

text \<open>
  A decimal literal of the source is the double nearest to it: \<open>float_lit 3046 3\<close> is
  the literal \<^verbatim>\<open>3.046\<close> (the digits, and how many of them follow the point).
\<close>

definition float_lit :: "int \<Rightarrow> int \<Rightarrow> pyfloat" where
  "float_lit digits decimals =
     round_to_double (digits < 0) (of_int \<bar>digits\<bar> / 10 ^ nat decimals)"

definition signed :: "bool \<Rightarrow> rat \<Rightarrow> rat" where
  "signed s q = (if s then - q else q)"

fun float_neg :: "pyfloat \<Rightarrow> pyfloat" where
  "float_neg (Finite s q) = Finite (\<not> s) q"
| "float_neg (Infinity s) = Infinity (\<not> s)"
| "float_neg NaN = NaN"

fun float_add :: "pyfloat \<Rightarrow> pyfloat \<Rightarrow> pyfloat" where
  "float_add NaN y = NaN"
| "float_add x NaN = NaN"
| "float_add (Infinity s) (Infinity t) = (if s = t then Infinity s else NaN)"
| "float_add (Infinity s) (Finite t b) = Infinity s"
| "float_add (Finite s a) (Infinity t) = Infinity t"
| "float_add (Finite s a) (Finite t b) =
     (let v = signed s a + signed t b
      in if v = 0 then Finite (s \<and> t) 0 else round_to_double (v < 0) \<bar>v\<bar>)"

fun float_mul :: "pyfloat \<Rightarrow> pyfloat \<Rightarrow> pyfloat" where
  "float_mul NaN y = NaN"
| "float_mul x NaN = NaN"
| "float_mul (Infinity s) (Infinity t) = Infinity (s \<noteq> t)"
| "float_mul (Infinity s) (Finite t b) = (if b = 0 then NaN else Infinity (s \<noteq> t))"
| "float_mul (Finite s a) (Infinity t) = (if a = 0 then NaN else Infinity (s \<noteq> t))"
| "float_mul (Finite s a) (Finite t b) = round_to_double (s \<noteq> t) (a * b)"

text \<open>Python's \<^verbatim>\<open>==\<close> on floats: both zeros are equal, NaN equals nothing.\<close>

fun float_eq :: "pyfloat \<Rightarrow> pyfloat \<Rightarrow> bool" where
  "float_eq (Finite s a) (Finite t b) = (a = b \<and> (s = t \<or> a = 0))"
| "float_eq (Infinity s) (Infinity t) = (s = t)"
| "float_eq x y = False"

text \<open>Truth value of a float: \<^verbatim>\<open>bool(x)\<close> is \<^verbatim>\<open>x != 0.0\<close>.\<close>

fun float_truth :: "pyfloat \<Rightarrow> bool" where
  "float_truth (Finite s a) = (a \<noteq> 0)"
| "float_truth (Infinity s) = True"
| "float_truth NaN = True"

subsection \<open>Dynamically typed values and exceptions\<close>

text \<open>
  The values the functions below receive: \<^verbatim>\<open>None\<close>, integers (unbounded), floats,
  strings and lists. An exception is a value of type \<open>error\<close>; a function that may raise
  returns \<open>error + 'a\<close>, with \<open>Inl\<close> the exception. The exceptions the source raises
  itself carry its message; those the interpreter raises carry a short tag.
\<close>

datatype pyval = PyNone | PyInt int | PyFloat pyfloat | PyStr string | PyList "pyval list"

datatype error =
    KeyError string
  | TypeError string
  | ValueError string
  | IndexError string
  | OverflowError string
  | AttributeError string

fun bind_result :: "error + 'a \<Rightarrow> ('a \<Rightarrow> error + 'b) \<Rightarrow> error + 'b" where
  "bind_result (Inl e) f = Inl e"
| "bind_result (Inr v) f = f v"

datatype pytype = NoneType | IntType | FloatType | StrType | ListType

fun type_of :: "pyval \<Rightarrow> pytype" where
  "type_of PyNone = NoneType"
| "type_of (PyInt i) = IntType"
| "type_of (PyFloat x) = FloatType"
| "type_of (PyStr s) = StrType"
| "type_of (PyList vs) = ListType"

text \<open>\<^verbatim>\<open>float(i)\<close> for an integer: rounded, and OverflowError beyond the range.\<close>

definition float_of_int :: "int \<Rightarrow> error + pyfloat" where
  "float_of_int i =
     (case round_to_double (i < 0) (of_int \<bar>i\<bar>) of
        Infinity s \<Rightarrow> Inl (OverflowError ''int too large to convert to float'')
      | x \<Rightarrow> Inr x)"

fun py_add :: "pyval \<Rightarrow> pyval \<Rightarrow> error + pyval" where
  "py_add (PyInt i) (PyInt j) = Inr (PyInt (i + j))"
| "py_add (PyInt i) (PyFloat y) =
     bind_result (float_of_int i) (\<lambda>x. Inr (PyFloat (float_add x y)))"
| "py_add (PyFloat x) (PyInt j) =
     bind_result (float_of_int j) (\<lambda>y. Inr (PyFloat (float_add x y)))"
| "py_add (PyFloat x) (PyFloat y) = Inr (PyFloat (float_add x y))"
| "py_add (PyStr s) (PyStr t) = Inr (PyStr (s @ t))"
| "py_add (PyList vs) (PyList ws) = Inr (PyList (vs @ ws))"
| "py_add a b = Inl (TypeError ''unsupported operand type(s) for +'')"

fun py_mul :: "pyval \<Rightarrow> pyval \<Rightarrow> error + pyval" where
  "py_mul (PyInt i) (PyInt j) = Inr (PyInt (i * j))"
| "py_mul (PyInt i) (PyFloat y) =
     bind_result (float_of_int i) (\<lambda>x. Inr (PyFloat (float_mul x y)))"
| "py_mul (PyFloat x) (PyInt j) =
     bind_result (float_of_int j) (\<lambda>y. Inr (PyFloat (float_mul x y)))"
| "py_mul (PyFloat x) (PyFloat y) = Inr (PyFloat (float_mul x y))"
| "py_mul (PyStr s) (PyInt n) = Inr (PyStr (concat (replicate (nat n) s)))"
| "py_mul (PyInt n) (PyStr s) = Inr (PyStr (concat (replicate (nat n) s)))"
| "py_mul (PyList vs) (PyInt n) = Inr (PyList (concat (replicate (nat n) vs)))"
| "py_mul (PyInt n) (PyList vs) = Inr (PyList (concat (replicate (nat n) vs)))"
| "py_mul a b = Inl (TypeError ''unsupported operand type(s) for *'')"

fun py_neg :: "pyval \<Rightarrow> error + pyval" where
  "py_neg (PyInt i) = Inr (PyInt (- i))"
| "py_neg (PyFloat x) = Inr (PyFloat (float_neg x))"
| "py_neg a = Inl (TypeError ''bad operand type for unary -'')"

text \<open>Truth value of an object, as \<^verbatim>\<open>if x:\<close> tests it.\<close>

fun py_truth :: "pyval \<Rightarrow> bool" where
  "py_truth PyNone = False"
| "py_truth (PyInt i) = (i \<noteq> 0)"
| "py_truth (PyFloat x) = float_truth x"
| "py_truth (PyStr s) = (s \<noteq> [])"
| "py_truth (PyList vs) = (vs \<noteq> [])"

text \<open>A dictionary with string keys, and the subscript \<^verbatim>\<open>d[k]\<close> that raises KeyError.\<close>

type_synonym pydict = "string \<rightharpoonup> pyval"

definition getitem :: "pydict \<Rightarrow> string \<Rightarrow> error + pyval" where
  "getitem d k = (case d k of None \<Rightarrow> Inl (KeyError k) | Some v \<Rightarrow> Inr v)"

definition get_default :: "pydict \<Rightarrow> string \<Rightarrow> pyval \<Rightarrow> pyval" where
  "get_default d k dflt = (case d k of None \<Rightarrow> dflt | Some v \<Rightarrow> v)"

section \<open>firecrown/connector/mapping.py\<close>

definition require_type :: "pyval \<Rightarrow> pytype \<Rightarrow> string \<Rightarrow> error + pyval" where
  "require_type val typ typename =
     (if type_of val = typ then Inr val
      else Inl (TypeError (typename @ '' value is required'')))"

definition require_float :: "pyval \<Rightarrow> error + pyval" where
  "require_float val = require_type val FloatType ''float''"

definition require_string :: "pyval \<Rightarrow> error + pyval" where
  "require_string val = require_type val StrType ''string''"

record PyCCLCosmologyConstants =
  Omega_c :: pyval
  Omega_b :: pyval
  h :: pyval
  A_s :: pyval
  sigma8 :: pyval
  n_s :: pyval
  Omega_k :: pyval
  Omega_g :: pyval
  Neff :: pyval
  m_nu :: pyval
  m_nu_type :: pyval
  w0 :: pyval
  wa :: pyval
  T_CMB :: pyval

text \<open>
  \<^verbatim>\<open>PyCCLCosmologyConstants.__init__\<close>: the arguments are keyword-only; \<^verbatim>\<open>A_s\<close> and
  \<^verbatim>\<open>sigma8\<close> default to \<^verbatim>\<open>None\<close>, so an argument that is not supplied is \<open>PyNone\<close>.
  The checks run in the order of the source, and the first one that fails raises.
\<close>

definition init_PyCCLCosmologyConstants ::
  "pyval \<Rightarrow> pyval \<Rightarrow> pyval \<Rightarrow> pyval \<Rightarrow> pyval \<Rightarrow> pyval \<Rightarrow> pyval \<Rightarrow> pyval \<Rightarrow> pyval \<Rightarrow> pyval
     \<Rightarrow> pyval \<Rightarrow> pyval \<Rightarrow> pyval \<Rightarrow> error + PyCCLCosmologyConstants" where
  "init_PyCCLCosmologyConstants =
     (\<lambda>Omega_c Omega_b h A_s sigma8 n_s Omega_k Neff m_nu m_nu_type w0 wa T_CMB.
      bind_result (require_float Omega_c) (\<lambda>self_Omega_c.
      bind_result (require_float Omega_b) (\<lambda>self_Omega_b.
      bind_result (require_float h) (\<lambda>self_h.
      if A_s \<noteq> PyNone \<and> sigma8 \<noteq> PyNone
      then Inl (ValueError ''Exactly one of A_s and sigma8 must be supplied'')
      else
      bind_result
        (if sigma8 = PyNone
         then bind_result (require_float A_s) (\<lambda>v. Inr (v, PyNone))
         else bind_result (require_float sigma8) (\<lambda>v. Inr (PyNone, v)))
        (\<lambda>(self_A_s, self_sigma8).
      bind_result (require_float n_s) (\<lambda>self_n_s.
      bind_result (require_float Omega_k) (\<lambda>self_Omega_k.
      bind_result (require_float Neff) (\<lambda>self_Neff.
      bind_result (require_float m_nu) (\<lambda>self_m_nu.
      bind_result (require_string m_nu_type) (\<lambda>self_m_nu_type.
      bind_result (require_float w0) (\<lambda>self_w0.
      bind_result (require_float wa) (\<lambda>self_wa.
      bind_result (require_float T_CMB) (\<lambda>self_T_CMB.
      Inr \<lparr>Omega_c = self_Omega_c, Omega_b = self_Omega_b, h = self_h,
           A_s = self_A_s, sigma8 = self_sigma8, n_s = self_n_s,
           Omega_k = self_Omega_k, Omega_g = PyNone, Neff = self_Neff,
           m_nu = self_m_nu, m_nu_type = self_m_nu_type, w0 = self_w0,
           wa = self_wa, T_CMB = self_T_CMB\<rparr>)))))))))))))"

text \<open>
  \<^verbatim>\<open>from_cosmosis_camb\<close>. The subscripts raise KeyError in the order of the source;
  \<^verbatim>\<open>delta_neff\<close> alone is read with \<^verbatim>\<open>.get\<close> and the default \<^verbatim>\<open>0.0\<close>.
\<close>

definition from_cosmosis_camb :: "pydict \<Rightarrow> error + PyCCLCosmologyConstants" where
  "from_cosmosis_camb cosmosis_params =
     bind_result (getitem cosmosis_params ''omega_c'') (\<lambda>Omega_c.
     bind_result (getitem cosmosis_params ''omega_b'') (\<lambda>Omega_b.
     bind_result (getitem cosmosis_params ''h0'') (\<lambda>h.
     bind_result (getitem cosmosis_params ''sigma_8'') (\<lambda>sigma8.
     bind_result (getitem cosmosis_params ''n_s'') (\<lambda>n_s.
     bind_result (getitem cosmosis_params ''omega_k'') (\<lambda>Omega_k.
     bind_result
       (py_add (get_default cosmosis_params ''delta_neff'' (PyFloat (float_lit 0 1)))
          (PyFloat (float_lit 3046 3))) (\<lambda>Neff.
     bind_result (getitem cosmosis_params ''omega_nu'') (\<lambda>omega_nu.
     bind_result (py_mul omega_nu h) (\<lambda>p1.
     bind_result (py_mul p1 h) (\<lambda>p2.
     bind_result (py_mul p2 (PyFloat (float_lit 9314 2))) (\<lambda>m_nu.
     let m_nu_type = PyStr ''normal'' in
     bind_result (getitem cosmosis_params ''w'') (\<lambda>w0.
     bind_result (getitem cosmosis_params ''wa'') (\<lambda>wa.
     bind_result (py_neg wa) (\<lambda>neg_wa.
     init_PyCCLCosmologyConstants Omega_c Omega_b h PyNone sigma8 n_s Omega_k Neff m_nu
       m_nu_type w0 neg_wa (PyFloat (float_lit 27255 4))))))))))))))))"




text \<open>The error the constructor raises when both amplitudes are supplied.\<close>

definition ambiguous_amplitude_error :: error where
  "ambiguous_amplitude_error = ValueError ''Exactly one of A_s and sigma8 must be supplied''"


text \<open>The mapping of the end-to-end scenario; \<^verbatim>\<open>-1.0\<close> is the negation of \<^verbatim>\<open>1.0\<close>.\<close>

definition cosmosis_params_example :: pydict where
  "cosmosis_params_example = map_of
     [(''omega_c'', PyFloat (float_lit 25 2)),
      (''omega_b'', PyFloat (float_lit 5 2)),
      (''h0'', PyFloat (float_lit 7 1)),
      (''sigma_8'', PyFloat (float_lit 8 1)),
      (''n_s'', PyFloat (float_lit 96 2)),
      (''omega_k'', PyFloat (float_lit 0 1)),
      (''w'', PyFloat (float_neg (float_lit 10 1))),
      (''wa'', PyFloat (float_lit 0 1)),
      (''omega_nu'', PyFloat (float_lit 0 1))]"

section \<open>firecrown/parser.py\<close>

text \<open>The subscript \<^verbatim>\<open>val[i]\<close> with an integer index; a negative index counts from the end.\<close>

fun py_index :: "pyval \<Rightarrow> int \<Rightarrow> error + pyval" where
  "py_index (PyList vs) i =
     (let n = int (length vs); j = (if i < 0 then n + i else i)
      in if 0 \<le> j \<and> j < n then Inr (vs ! nat j)
         else Inl (IndexError ''list index out of range''))"
| "py_index (PyStr s) i =
     (let n = int (length s); j = (if i < 0 then n + i else i)
      in if 0 \<le> j \<and> j < n then Inr (PyStr [s ! nat j])
         else Inl (IndexError ''string index out of range''))"
| "py_index v i = Inl (TypeError ''object is not subscriptable'')"

text \<open>
  The loop of \<^verbatim>\<open>parse\<close> over \<^verbatim>\<open>data['parameters'].items()\<close>, which fills the new
  dictionary \<^verbatim>\<open>params\<close>. A dictionary that is iterated is an association list in
  insertion order; \<^verbatim>\<open>params[p] = v\<close> replaces the value of a key it has and appends a
  new key otherwise, which is \<open>AList.update\<close>. Reading the file, the template and the
  import of the analysis modules are outside the model.
\<close>

fun parse_parameters ::
  "(string \<times> pyval) list \<Rightarrow> (string \<times> pyval) list \<Rightarrow> error + (string \<times> pyval) list" where
  "parse_parameters [] params = Inr params"
| "parse_parameters ((p, val) # rest) params =
     (if type_of val = ListType \<and> type_of val \<noteq> StrType
      then (case py_index val 1 of
              Inl e \<Rightarrow> Inl e
            | Inr v \<Rightarrow> parse_parameters rest (AList.update p v params))
      else parse_parameters rest (AList.update p val params))"

text \<open>What the loop is to leave for a value: the element at index 1 of a list.\<close>

fun fiducial :: "pyval \<Rightarrow> pyval" where
  "fiducial (PyList vs) = vs ! 1"
| "fiducial v = v"

fun short_list :: "pyval \<Rightarrow> bool" where
  "short_list (PyList vs) = (length vs < 2)"
| "short_list v = False"

section \<open>firecrown/likelihood/gauss_family/student\_t.py\<close>



section \<open>tjpcosmo/models/twopoint/calculator.py\<close>

subsection \<open>convert\_cosmobase\_to\_ccl\<close>

text \<open>
  Modelled from the spec: the class of \<^verbatim>\<open>cosmo_base\<close> is not among the sources. It is
  the flat key-value block of the sampler boundary: the attribute \<^verbatim>\<open>cosmo_base.k\<close>
  reads the key \<open>k\<close> and raises AttributeError when the block lacks it.
\<close>

definition getattr :: "pydict \<Rightarrow> string \<Rightarrow> error + pyval" where
  "getattr obj k = (case obj k of None \<Rightarrow> Inl (AttributeError k) | Some v \<Rightarrow> Inr v)"

text \<open>
  Modelled from the spec: \<^verbatim>\<open>k in cosmo_base\<close> tests whether the block has the key.
\<close>

definition contains :: "pydict \<Rightarrow> string \<Rightarrow> bool" where
  "contains obj k = (obj k \<noteq> None)"

text \<open>
  \<^verbatim>\<open>ccl.Parameters\<close> is the oracle's constructor, a parameter here; it receives its
  keyword arguments in the order of the call and may raise.
\<close>

definition convert_cosmobase_to_ccl ::
  "((string \<times> pyval) list \<Rightarrow> error + 'p) \<Rightarrow> pydict \<Rightarrow> error + 'p" where
  "convert_cosmobase_to_ccl ccl_Parameters cosmo_base =
     bind_result (getattr cosmo_base ''omega_c'') (\<lambda>omega_c.
     bind_result (getattr cosmo_base ''omega_b'') (\<lambda>omega_b.
     bind_result (getattr cosmo_base ''omega_k'') (\<lambda>omega_k.
     bind_result (getattr cosmo_base ''omega_n_rel'') (\<lambda>omega_n_rel.
     bind_result (getattr cosmo_base ''omega_n_mass'') (\<lambda>omega_n_mass.
     bind_result (py_add omega_n_rel omega_n_mass) (\<lambda>omega_n.
     if py_truth omega_n
     then Inl (ValueError ''cosmo_base doesn't handle massive neutrinos yet'')
     else
     bind_result (getattr cosmo_base ''w0'') (\<lambda>w.
     bind_result (getattr cosmo_base ''wa'') (\<lambda>wa.
     bind_result (getattr cosmo_base ''h'') (\<lambda>h0.
     bind_result
       (if contains cosmo_base ''sigma_8'' then getattr cosmo_base ''sigma_8''
        else Inr (PyFloat (float_lit 0 1))) (\<lambda>sigma8.
     bind_result
       (if contains cosmo_base ''a_s'' then getattr cosmo_base ''a_s''
        else Inr (PyFloat (float_lit 0 1))) (\<lambda>A_s.
     bind_result (getattr cosmo_base ''n_s'') (\<lambda>n_s.
     if py_truth sigma8 \<and> py_truth A_s
     then Inl (ValueError ''Specifying both sigma8 and A_s: pick one'')
     else if py_truth sigma8
     then ccl_Parameters
            [(''Omega_c'', omega_c), (''Omega_b'', omega_b), (''Omega_k'', omega_k),
             (''w0'', w), (''wa'', wa), (''sigma8'', sigma8), (''n_s'', n_s), (''h'', h0)]
     else if py_truth A_s
     then ccl_Parameters
            [(''Omega_c'', omega_c), (''Omega_b'', omega_b), (''Omega_k'', omega_k),
             (''w0'', w), (''wa'', wa), (''A_s'', A_s), (''n_s'', n_s), (''h'', h0)]
     else Inl (ValueError ''Need either sigma 8 or A_s in pyccl.'')))))))))))))"

subsection \<open>TwoPointTheoryCalculator\<close>

text \<open>
  The classes of the systematics and of the sources are not among the sources of the
  program. A systematic object is a value of a type parameter \<open>'sys\<close>, and
  \<^verbatim>\<open>isinstance\<close> on it is a parameter of \<open>setup_systematics\<close>. A source object carries
  its name, its type and the list \<^verbatim>\<open>source.systematics\<close>, here \<open>src_systematics\<close>;
  \<^verbatim>\<open>make_source\<close> is a parameter that may raise. The entry of a source in the
  configuration has the key \<^verbatim>\<open>type\<close> and may have the key \<^verbatim>\<open>systematics\<close>; a key it
  lacks is \<open>None\<close>.
\<close>

datatype systematic_class = OutputSystematic | CosmologySystematic | SourceSystematic

record 'sys source =
  src_name :: string
  src_type :: string
  src_systematics :: "'sys list"

record source_info =
  info_type :: "string option"
  info_systematics :: "string list option"

record ('info, 'md) config =
  config_systematics :: "(string \<times> 'info) list option"
  config_sources :: "(string \<times> source_info) list option"
  config_metadata :: 'md

record ('sys, 'md) TwoPointTheoryCalculator =
  metadata :: 'md
  systematics :: "(string \<times> 'sys) list"
  output_systematics :: "(string \<times> 'sys) list"
  cosmology_systematics :: "(string \<times> 'sys) list"
  source_systematics :: "(string \<times> 'sys) list"
  sources :: "'sys source list"

fun setup_systematics_loop ::
  "('info \<Rightarrow> error + 'sys) \<Rightarrow> (string \<times> 'info) list \<Rightarrow> (string \<times> 'sys) list
     \<Rightarrow> error + (string \<times> 'sys) list" where
  "setup_systematics_loop from_info [] table = Inr table"
| "setup_systematics_loop from_info ((name, info) # rest) table =
     (case from_info info of
        Inl e \<Rightarrow> Inl e
      | Inr sys \<Rightarrow> setup_systematics_loop from_info rest (AList.update name sys table))"

definition setup_systematics ::
  "('info \<Rightarrow> error + 'sys) \<Rightarrow> ('sys \<Rightarrow> systematic_class \<Rightarrow> bool) \<Rightarrow> (string \<times> 'info) list
     \<Rightarrow> ('sys, 'md) TwoPointTheoryCalculator \<Rightarrow> error + ('sys, 'md) TwoPointTheoryCalculator" where
  "setup_systematics from_info isinstance sys_config self =
     bind_result (setup_systematics_loop from_info sys_config []) (\<lambda>table.
     Inr (self\<lparr>systematics := table,
               output_systematics := filter (\<lambda>(name, sys). isinstance sys OutputSystematic) table,
               cosmology_systematics :=
                 filter (\<lambda>(name, sys). isinstance sys CosmologySystematic) table,
               source_systematics :=
                 filter (\<lambda>(name, sys). isinstance sys SourceSystematic) table\<rparr>))"

definition unresolved_message :: "string \<Rightarrow> string \<Rightarrow> string" where
  "unresolved_message sys_name name =
     ''Systematic with name '' @ sys_name @ '' was specified for source '' @ name @
     '' but not defined in parameter file systematics section''"

definition unused_message :: "string \<Rightarrow> string" where
  "unused_message sys_name =
     ''Systematic with name '' @ sys_name @ '' was specified in param file but never used''"

text \<open>The inner loop of \<^verbatim>\<open>setup_sources\<close>, over the systematics a source names.\<close>

fun attach_systematics ::
  "(string \<times> 'sys) list \<Rightarrow> string \<Rightarrow> string list \<Rightarrow> 'sys source \<times> string set
     \<Rightarrow> error + 'sys source \<times> string set" where
  "attach_systematics table name [] (source, used_systematics) =
     Inr (source, used_systematics)"
| "attach_systematics table name (sys_name # rest) (source, used_systematics) =
     (case map_of table sys_name of
        None \<Rightarrow> Inl (ValueError (unresolved_message sys_name name))
      | Some sys \<Rightarrow>
          attach_systematics table name rest
            (source\<lparr>src_systematics := src_systematics source @ [sys]\<rparr>,
             insert sys_name used_systematics))"

text \<open>The outer loop, over the sources of the configuration.\<close>

fun build_sources ::
  "(string \<Rightarrow> string \<Rightarrow> 'md \<Rightarrow> error + 'sys source) \<Rightarrow> 'md \<Rightarrow> (string \<times> 'sys) list
     \<Rightarrow> (string \<times> source_info) list \<Rightarrow> string set \<times> 'sys source list
     \<Rightarrow> error + string set \<times> 'sys source list" where
  "build_sources make_source md table [] (used_systematics, srcs) =
     Inr (used_systematics, srcs)"
| "build_sources make_source md table ((name, source_info) # rest) (used_systematics, srcs) =
     (case info_type source_info of
        None \<Rightarrow> Inl (KeyError ''type'')
      | Some stype \<Rightarrow>
          (case make_source name stype md of
             Inl e \<Rightarrow> Inl e
           | Inr source \<Rightarrow>
               (case attach_systematics table name
                       (case info_systematics source_info of None \<Rightarrow> [] | Some ns \<Rightarrow> ns)
                       (source, used_systematics) of
                  Inl e \<Rightarrow> Inl e
                | Inr (source', used') \<Rightarrow>
                    build_sources make_source md table rest (used', srcs @ [source']))))"

text \<open>The last loop: every key of \<^verbatim>\<open>self.source_systematics\<close> must have been used.\<close>

fun check_used :: "string list \<Rightarrow> string set \<Rightarrow> error + unit" where
  "check_used [] used_systematics = Inr ()"
| "check_used (sys_name # rest) used_systematics =
     (if sys_name \<notin> used_systematics then Inl (ValueError (unused_message sys_name))
      else check_used rest used_systematics)"

definition setup_sources ::
  "(string \<Rightarrow> string \<Rightarrow> 'md \<Rightarrow> error + 'sys source) \<Rightarrow> ('info, 'md) config
     \<Rightarrow> ('sys, 'md) TwoPointTheoryCalculator \<Rightarrow> error + ('sys, 'md) TwoPointTheoryCalculator" where
  "setup_sources make_source config self =
     bind_result
       (case config_sources config of None \<Rightarrow> Inl (KeyError ''sources'') | Some i \<Rightarrow> Inr i)
       (\<lambda>info.
     bind_result (build_sources make_source (metadata self) (systematics self) info ({}, []))
       (\<lambda>(used_systematics, srcs).
     bind_result (check_used (map fst (source_systematics self)) used_systematics) (\<lambda>u.
     Inr (self\<lparr>sources := srcs\<rparr>))))"

text \<open>
  What the two checks are about: the references of the configuration that the table
  does not resolve, as pairs of the systematic and the source in the order the loops
  meet them, and the keys of the bucket that no source names.
\<close>

definition names_of :: "source_info \<Rightarrow> string list" where
  "names_of source_info = (case info_systematics source_info of None \<Rightarrow> [] | Some ns \<Rightarrow> ns)"

definition unresolved ::
  "(string \<times> 'sys) list \<Rightarrow> (string \<times> source_info) list \<Rightarrow> (string \<times> string) list" where
  "unresolved table info =
     concat (map (\<lambda>(name, source_info).
       map (\<lambda>sys_name. (sys_name, name))
         (filter (\<lambda>sys_name. map_of table sys_name = None) (names_of source_info))) info)"

definition referenced :: "(string \<times> source_info) list \<Rightarrow> string set" where
  "referenced info = set (concat (map (\<lambda>(name, source_info). names_of source_info) info))"

definition unused :: "(string \<times> 'sys) list \<Rightarrow> (string \<times> source_info) list \<Rightarrow> string list" where
  "unused bucket info = filter (\<lambda>sys_name. sys_name \<notin> referenced info) (map fst bucket)"

text \<open>The sources are built: every entry has its type and \<^verbatim>\<open>make_source\<close> returns.\<close>

definition sources_constructible ::
  "(string \<Rightarrow> string \<Rightarrow> 'md \<Rightarrow> error + 'sys source) \<Rightarrow> 'md \<Rightarrow> (string \<times> source_info) list \<Rightarrow> bool" where
  "sources_constructible make_source md info =
     list_all (\<lambda>(name, source_info).
        case info_type source_info of
          None \<Rightarrow> False
        | Some stype \<Rightarrow> \<not> isl (make_source name stype md)) info"

text \<open>Variants of the scenario: with \<^verbatim>\<open>delta_neff\<close> given, with \<^verbatim>\<open>wa = -0.1\<close>, and
  with a key missing.\<close>

definition delta_neff_example :: pydict where
  "delta_neff_example = cosmosis_params_example(''delta_neff'' \<mapsto> PyFloat (float_lit 0 1))"

definition wa_example :: pydict where
  "wa_example = cosmosis_params_example(''wa'' \<mapsto> PyFloat (float_neg (float_lit 1 1)))"



text \<open>A parameter block with a sampled range, a number and a string.\<close>

definition parameters_example :: "(string \<times> pyval) list" where
  "parameters_example =
     [(''omega_c'', PyList [PyFloat (float_lit 1 1), PyFloat (float_lit 25 2),
                            PyFloat (float_lit 4 1)]),
      (''h0'', PyFloat (float_lit 7 1)),
      (''sampler'', PyStr ''emcee'')]"

text \<open>
  What lets \<^verbatim>\<open>convert_cosmobase_to_ccl\<close> reach its test of the amplitudes: the attributes
  it reads are there, and the sum of the two neutrino fractions is computed and false.
  Then a block of the sampler with \<^verbatim>\<open>sigma_8 = 0.0\<close> and no \<^verbatim>\<open>a_s\<close>.
\<close>

definition has_attributes :: "pydict \<Rightarrow> string list \<Rightarrow> bool" where
  "has_attributes obj ks = list_all (\<lambda>k. obj k \<noteq> None) ks"

definition no_massive_neutrinos :: "pydict \<Rightarrow> bool" where
  "no_massive_neutrinos cosmo_base =
     (case (cosmo_base ''omega_n_rel'', cosmo_base ''omega_n_mass'') of
        (Some omega_n_rel, Some omega_n_mass) \<Rightarrow>
          (case py_add omega_n_rel omega_n_mass of
             Inl e \<Rightarrow> False
           | Inr omega_n \<Rightarrow> \<not> py_truth omega_n)
      | _ \<Rightarrow> False)"

definition cosmo_base_example :: pydict where
  "cosmo_base_example = map_of
     [(''omega_c'', PyFloat (float_lit 25 2)),
      (''omega_b'', PyFloat (float_lit 5 2)),
      (''omega_k'', PyFloat (float_lit 0 1)),
      (''omega_n_rel'', PyFloat (float_lit 0 1)),
      (''omega_n_mass'', PyFloat (float_lit 0 1)),
      (''w0'', PyFloat (float_neg (float_lit 10 1))),
      (''wa'', PyFloat (float_lit 0 1)),
      (''h'', PyFloat (float_lit 7 1)),
      (''sigma_8'', PyFloat (float_lit 0 1)),
      (''n_s'', PyFloat (float_lit 96 2))]"

text \<open>
  A calculator whose systematics are set up, with two source systematics and one
  cosmology systematic (an object is the list of the classes it is an instance of), and
  a configuration of one source that names the given systematics.
\<close>

definition make_source_example ::
  "string \<Rightarrow> string \<Rightarrow> unit \<Rightarrow> error + systematic_class list source" where
  "make_source_example name stype md =
     Inr \<lparr>src_name = name, src_type = stype, src_systematics = []\<rparr>"

definition calculator_example ::
  "(systematic_class list, unit) TwoPointTheoryCalculator" where
  "calculator_example =
     \<lparr>metadata = (),
      systematics = [(''bias'', [SourceSystematic]), (''shear_cal'', [SourceSystematic]),
                     (''baryons'', [CosmologySystematic])],
      output_systematics = [],
      cosmology_systematics = [(''baryons'', [CosmologySystematic])],
      source_systematics = [(''bias'', [SourceSystematic]), (''shear_cal'', [SourceSystematic])],
      sources = []\<rparr>"

definition sources_example :: "string list \<Rightarrow> (string \<times> source_info) list" where
  "sources_example sys_names =
     [(''lens'', \<lparr>info_type = Some ''LSS'', info_systematics = Some sys_names\<rparr>)]"

definition config_example :: "string list \<Rightarrow> (unit, unit) config" where
  "config_example sys_names =
     \<lparr>config_systematics = None, config_sources = Some (sources_example sys_names),
      config_metadata = ()\<rparr>"

section \<open>Properties of the parameter record\<close>

lemma bind_result_Inr_iff:
  "bind_result m f = Inr r \<longleftrightarrow> (\<exists>v. m = Inr v \<and> f v = Inr r)"
  by (cases m) simp_all


lemma require_float_Inr_iff:
  "require_float v = Inr w \<longleftrightarrow> w = v \<and> type_of v = FloatType"
  by (auto simp: require_float_def require_type_def)

lemma require_string_Inr_iff:
  "require_string v = Inr w \<longleftrightarrow> w = v \<and> type_of v = StrType"
  by (auto simp: require_string_def require_type_def)


lemma init_Inr_iff:
  "init_PyCCLCosmologyConstants oc ob hh a_s s8 ns ok ne mn mt w00 waa tc = Inr r \<longleftrightarrow>
     type_of oc = FloatType \<and> type_of ob = FloatType \<and> type_of hh = FloatType \<and>
     ((a_s = PyNone \<and> type_of s8 = FloatType) \<or> (s8 = PyNone \<and> type_of a_s = FloatType)) \<and>
     type_of ns = FloatType \<and> type_of ok = FloatType \<and> type_of ne = FloatType \<and>
     type_of mn = FloatType \<and> type_of mt = StrType \<and> type_of w00 = FloatType \<and>
     type_of waa = FloatType \<and> type_of tc = FloatType \<and>
     r = \<lparr>Omega_c = oc, Omega_b = ob, h = hh, A_s = a_s, sigma8 = s8, n_s = ns,
          Omega_k = ok, Omega_g = PyNone, Neff = ne, m_nu = mn, m_nu_type = mt, w0 = w00,
          wa = waa, T_CMB = tc\<rparr>"
  unfolding init_PyCCLCosmologyConstants_def
  by (auto simp: bind_result_Inr_iff require_float_Inr_iff require_string_Inr_iff)

lemma getitem_Inr_iff: "getitem d k = Inr v \<longleftrightarrow> d k = Some v"
  by (simp add: getitem_def split: option.splits)

lemma from_cosmosis_camb_Inr_iff:
  "from_cosmosis_camb cp = Inr r \<longleftrightarrow>
     (\<exists>oc ob hh s8 ns ok ne onu p1 p2 mn w00 waa nwa.
        cp ''omega_c'' = Some oc \<and> cp ''omega_b'' = Some ob \<and> cp ''h0'' = Some hh \<and>
        cp ''sigma_8'' = Some s8 \<and> cp ''n_s'' = Some ns \<and> cp ''omega_k'' = Some ok \<and>
        py_add (get_default cp ''delta_neff'' (PyFloat (float_lit 0 1)))
          (PyFloat (float_lit 3046 3)) = Inr ne \<and>
        cp ''omega_nu'' = Some onu \<and> py_mul onu hh = Inr p1 \<and> py_mul p1 hh = Inr p2 \<and>
        py_mul p2 (PyFloat (float_lit 9314 2)) = Inr mn \<and>
        cp ''w'' = Some w00 \<and> cp ''wa'' = Some waa \<and> py_neg waa = Inr nwa \<and>
        init_PyCCLCosmologyConstants oc ob hh PyNone s8 ns ok ne mn (PyStr ''normal'') w00 nwa
          (PyFloat (float_lit 27255 4)) = Inr r)"
  unfolding from_cosmosis_camb_def
  by (simp add: bind_result_Inr_iff getitem_Inr_iff Let_def)

lemma float_lit_zero: "float_lit 0 d = Finite False 0"
  by (simp add: float_lit_def round_to_double_def)

lemma float_lit_3046:
  "float_lit 3046 3 = Finite False (6858982232485265 / 2251799813685248)"
  by code_simp

lemma round_3046:
  "round_to_double False (6858982232485265 / 2251799813685248) =
     Finite False (6858982232485265 / 2251799813685248)"
  by code_simp

lemma float_add_zero_3046:
  "float_add (Finite s 0) (float_lit 3046 3) = float_lit 3046 3"
  by (simp add: float_lit_3046 signed_def round_3046)

lemma example_m_nu:
  "float_mul (float_mul (float_mul (float_lit 0 1) (float_lit 7 1)) (float_lit 7 1))
     (float_lit 9314 2) = float_lit 0 1"
  by code_simp

lemma example_Neff: "float_add (float_lit 0 1) (float_lit 3046 3) = float_lit 3046 3"
  using float_add_zero_3046 [of False] by (simp add: float_lit_zero)

lemma example_result:
  "from_cosmosis_camb cosmosis_params_example =
     Inr \<lparr>Omega_c = PyFloat (float_lit 25 2), Omega_b = PyFloat (float_lit 5 2),
          h = PyFloat (float_lit 7 1), A_s = PyNone, sigma8 = PyFloat (float_lit 8 1),
          n_s = PyFloat (float_lit 96 2), Omega_k = PyFloat (float_lit 0 1),
          Omega_g = PyNone, Neff = PyFloat (float_lit 3046 3),
          m_nu = PyFloat (float_lit 0 1), m_nu_type = PyStr ''normal'',
          w0 = PyFloat (float_neg (float_lit 10 1)), wa = PyFloat (float_neg (float_lit 0 1)),
          T_CMB = PyFloat (float_lit 27255 4)\<rparr>"
  by (simp add: from_cosmosis_camb_Inr_iff cosmosis_params_example_def get_default_def
      init_Inr_iff example_m_nu example_Neff)

lemma init_fails_iff:
  "isl (init_PyCCLCosmologyConstants oc ob hh a_s s8 ns ok ne mn mt w00 waa tc) \<longleftrightarrow>
   (\<forall>r. init_PyCCLCosmologyConstants oc ob hh a_s s8 ns ok ne mn mt w00 waa tc \<noteq> Inr r)"
  by (cases "init_PyCCLCosmologyConstants oc ob hh a_s s8 ns ok ne mn mt w00 waa tc") auto

lemma float_eq_zero: "float_eq x (Finite False 0) \<Longrightarrow> \<exists>s. x = Finite s 0"
  by (cases x) auto

lemma from_cosmosis_camb_Neff:
  assumes "from_cosmosis_camb cp = Inr r"
  shows "py_add (get_default cp ''delta_neff'' (PyFloat (float_lit 0 1)))
           (PyFloat (float_lit 3046 3)) = Inr (Neff r)"
  using assms by (auto simp: from_cosmosis_camb_Inr_iff init_Inr_iff)

lemma delta_neff_example_result:
  "from_cosmosis_camb delta_neff_example =
     Inr \<lparr>Omega_c = PyFloat (float_lit 25 2), Omega_b = PyFloat (float_lit 5 2),
          h = PyFloat (float_lit 7 1), A_s = PyNone, sigma8 = PyFloat (float_lit 8 1),
          n_s = PyFloat (float_lit 96 2), Omega_k = PyFloat (float_lit 0 1),
          Omega_g = PyNone, Neff = PyFloat (float_lit 3046 3),
          m_nu = PyFloat (float_lit 0 1), m_nu_type = PyStr ''normal'',
          w0 = PyFloat (float_neg (float_lit 10 1)), wa = PyFloat (float_neg (float_lit 0 1)),
          T_CMB = PyFloat (float_lit 27255 4)\<rparr>"
  by (simp add: from_cosmosis_camb_Inr_iff delta_neff_example_def cosmosis_params_example_def
      get_default_def init_Inr_iff example_m_nu example_Neff)

lemma py_neg_float:
  "py_neg v = Inr w \<Longrightarrow> type_of w = FloatType \<Longrightarrow>
     \<exists>x. v = PyFloat x \<and> w = PyFloat (float_neg x)"
  by (cases v) auto

lemma float_neg_involution: "float_neg (float_neg x) = x"
  by (cases x) simp_all

lemma wa_example_result:
  "from_cosmosis_camb wa_example =
     Inr \<lparr>Omega_c = PyFloat (float_lit 25 2), Omega_b = PyFloat (float_lit 5 2),
          h = PyFloat (float_lit 7 1), A_s = PyNone, sigma8 = PyFloat (float_lit 8 1),
          n_s = PyFloat (float_lit 96 2), Omega_k = PyFloat (float_lit 0 1),
          Omega_g = PyNone, Neff = PyFloat (float_lit 3046 3),
          m_nu = PyFloat (float_lit 0 1), m_nu_type = PyStr ''normal'',
          w0 = PyFloat (float_neg (float_lit 10 1)),
          wa = PyFloat (float_neg (float_neg (float_lit 1 1))),
          T_CMB = PyFloat (float_lit 27255 4)\<rparr>"
  by (simp add: from_cosmosis_camb_Inr_iff wa_example_def cosmosis_params_example_def
      get_default_def init_Inr_iff example_m_nu example_Neff)














section \<open>Claims about the parameter record and the CosmoSIS mapper\<close>

text \<open>
  C1. Constructing the parameter record with both \<^verbatim>\<open>A_s\<close> and \<^verbatim>\<open>sigma8\<close>, or with
  neither, raises, and a record that was constructed has exactly one of the two fields
  non-null. The error is not the same in the two cases: once \<^verbatim>\<open>Omega_c\<close>, \<^verbatim>\<open>Omega_b\<close>
  and \<^verbatim>\<open>h\<close> have passed their type checks, supplying both raises the ValueError
  \<open>ambiguous_amplitude_error\<close>, and supplying neither raises the TypeError of
  \<^verbatim>\<open>require_float(None)\<close>.
\<close>

theorem amplitude_exclusive:
  "((a_s \<noteq> PyNone \<and> s8 \<noteq> PyNone) \<or> (a_s = PyNone \<and> s8 = PyNone) \<longrightarrow>
      isl (init_PyCCLCosmologyConstants oc ob hh a_s s8 ns ok ne mn mt w00 waa tc)) \<and>
   (type_of oc = FloatType \<and> type_of ob = FloatType \<and> type_of hh = FloatType \<longrightarrow>
      (a_s \<noteq> PyNone \<and> s8 \<noteq> PyNone \<longrightarrow>
         init_PyCCLCosmologyConstants oc ob hh a_s s8 ns ok ne mn mt w00 waa tc =
           Inl ambiguous_amplitude_error) \<and>
      (a_s = PyNone \<and> s8 = PyNone \<longrightarrow>
         init_PyCCLCosmologyConstants oc ob hh a_s s8 ns ok ne mn mt w00 waa tc =
           Inl (TypeError ''float value is required''))) \<and>
   (init_PyCCLCosmologyConstants oc ob hh a_s s8 ns ok ne mn mt w00 waa tc = Inr r \<longrightarrow>
      (A_s r = PyNone) \<noteq> (sigma8 r = PyNone))"
proof (intro conjI impI)
  assume "(a_s \<noteq> PyNone \<and> s8 \<noteq> PyNone) \<or> (a_s = PyNone \<and> s8 = PyNone)"
  then show "isl (init_PyCCLCosmologyConstants oc ob hh a_s s8 ns ok ne mn mt w00 waa tc)"
    unfolding init_fails_iff by (auto simp: init_Inr_iff)
next
  assume "type_of oc = FloatType \<and> type_of ob = FloatType \<and> type_of hh = FloatType"
    and "a_s \<noteq> PyNone \<and> s8 \<noteq> PyNone"
  then show "init_PyCCLCosmologyConstants oc ob hh a_s s8 ns ok ne mn mt w00 waa tc =
      Inl ambiguous_amplitude_error"
    unfolding init_PyCCLCosmologyConstants_def ambiguous_amplitude_error_def
    by (simp add: require_float_def require_type_def)
next
  assume "type_of oc = FloatType \<and> type_of ob = FloatType \<and> type_of hh = FloatType"
    and "a_s = PyNone \<and> s8 = PyNone"
  then show "init_PyCCLCosmologyConstants oc ob hh a_s s8 ns ok ne mn mt w00 waa tc =
      Inl (TypeError ''float value is required'')"
    unfolding init_PyCCLCosmologyConstants_def
    by (simp add: require_float_def require_type_def)
next
  assume "init_PyCCLCosmologyConstants oc ob hh a_s s8 ns ok ne mn mt w00 waa tc = Inr r"
  then show "(A_s r = PyNone) \<noteq> (sigma8 r = PyNone)"
    by (auto simp: init_Inr_iff)
qed

theorem amplitude_exclusive_witness:
  "init_PyCCLCosmologyConstants (PyFloat (float_lit 0 1)) (PyFloat (float_lit 0 1)) (PyFloat (float_lit 0 1)) (PyFloat (float_lit 0 1)) (PyFloat (float_lit 0 1)) (PyFloat (float_lit 0 1)) (PyFloat (float_lit 0 1)) (PyFloat (float_lit 0 1)) (PyFloat (float_lit 0 1)) (PyStr ''normal'') (PyFloat (float_lit 0 1)) (PyFloat (float_lit 0 1)) (PyFloat (float_lit 0 1)) =
     Inl ambiguous_amplitude_error \<and>
   init_PyCCLCosmologyConstants (PyFloat (float_lit 0 1)) (PyFloat (float_lit 0 1)) (PyFloat (float_lit 0 1)) PyNone PyNone (PyFloat (float_lit 0 1)) (PyFloat (float_lit 0 1)) (PyFloat (float_lit 0 1)) (PyFloat (float_lit 0 1)) (PyStr ''normal'') (PyFloat (float_lit 0 1)) (PyFloat (float_lit 0 1)) (PyFloat (float_lit 0 1)) =
     Inl (TypeError ''float value is required'') \<and>
   A_s \<lparr>Omega_c = (PyFloat (float_lit 0 1)), Omega_b = (PyFloat (float_lit 0 1)), h = (PyFloat (float_lit 0 1)), A_s = PyNone, sigma8 = (PyFloat (float_lit 0 1)), n_s = (PyFloat (float_lit 0 1)),
          Omega_k = (PyFloat (float_lit 0 1)), Omega_g = PyNone, Neff = (PyFloat (float_lit 0 1)), m_nu = (PyFloat (float_lit 0 1)), m_nu_type = PyStr ''normal'',
          w0 = (PyFloat (float_lit 0 1)), wa = (PyFloat (float_lit 0 1)), T_CMB = (PyFloat (float_lit 0 1))\<rparr> = PyNone \<and>
   sigma8 \<lparr>Omega_c = (PyFloat (float_lit 0 1)), Omega_b = (PyFloat (float_lit 0 1)), h = (PyFloat (float_lit 0 1)), A_s = PyNone, sigma8 = (PyFloat (float_lit 0 1)), n_s = (PyFloat (float_lit 0 1)),
          Omega_k = (PyFloat (float_lit 0 1)), Omega_g = PyNone, Neff = (PyFloat (float_lit 0 1)), m_nu = (PyFloat (float_lit 0 1)), m_nu_type = PyStr ''normal'',
          w0 = (PyFloat (float_lit 0 1)), wa = (PyFloat (float_lit 0 1)), T_CMB = (PyFloat (float_lit 0 1))\<rparr> \<noteq> PyNone \<and>
   init_PyCCLCosmologyConstants (PyFloat (float_lit 0 1)) (PyFloat (float_lit 0 1)) (PyFloat (float_lit 0 1)) PyNone (PyFloat (float_lit 0 1)) (PyFloat (float_lit 0 1)) (PyFloat (float_lit 0 1)) (PyFloat (float_lit 0 1)) (PyFloat (float_lit 0 1)) (PyStr ''normal'') (PyFloat (float_lit 0 1)) (PyFloat (float_lit 0 1)) (PyFloat (float_lit 0 1)) =
     Inr \<lparr>Omega_c = (PyFloat (float_lit 0 1)), Omega_b = (PyFloat (float_lit 0 1)), h = (PyFloat (float_lit 0 1)), A_s = PyNone, sigma8 = (PyFloat (float_lit 0 1)), n_s = (PyFloat (float_lit 0 1)),
          Omega_k = (PyFloat (float_lit 0 1)), Omega_g = PyNone, Neff = (PyFloat (float_lit 0 1)), m_nu = (PyFloat (float_lit 0 1)), m_nu_type = PyStr ''normal'',
          w0 = (PyFloat (float_lit 0 1)), wa = (PyFloat (float_lit 0 1)), T_CMB = (PyFloat (float_lit 0 1))\<rparr>"
proof -
  define f0 where "f0 = PyFloat (float_lit 0 1)"
  have t: "type_of f0 = FloatType" "f0 \<noteq> PyNone" by (simp_all add: f0_def)
  have ok: "init_PyCCLCosmologyConstants f0 f0 f0 PyNone f0 f0 f0 f0 f0 (PyStr ''normal'') f0 f0 f0 =
     Inr \<lparr>Omega_c = f0, Omega_b = f0, h = f0, A_s = PyNone, sigma8 = f0, n_s = f0,
          Omega_k = f0, Omega_g = PyNone, Neff = f0, m_nu = f0, m_nu_type = PyStr ''normal'',
          w0 = f0, wa = f0, T_CMB = f0\<rparr>"
    by (simp add: init_Inr_iff t)
  show ?thesis
    using amplitude_exclusive [where a_s = f0 and ?s8.0 = f0 and oc = f0 and ob = f0 and hh = f0
        and ns = f0 and ok = f0 and ne = f0 and mn = f0 and mt = "PyStr ''normal''" and ?w00.0 = f0
        and waa = f0 and tc = f0]
      amplitude_exclusive [where a_s = PyNone and ?s8.0 = PyNone and oc = f0 and ob = f0
        and hh = f0 and ns = f0 and ok = f0 and ne = f0 and mn = f0 and mt = "PyStr ''normal''"
        and ?w00.0 = f0 and waa = f0 and tc = f0]
      amplitude_exclusive [where a_s = PyNone and ?s8.0 = f0 and oc = f0 and ob = f0
        and hh = f0 and ns = f0 and ok = f0 and ne = f0 and mn = f0 and mt = "PyStr ''normal''"
        and ?w00.0 = f0 and waa = f0 and tc = f0]
      ok t
    by (simp add: f0_def)
qed

text \<open>
  With neither amplitude the constructor does not raise the ambiguity error: the error
  is the TypeError that any argument of the wrong type raises.
\<close>

theorem neither_amplitude_counterexample:
  "init_PyCCLCosmologyConstants (PyFloat (float_lit 25 2)) (PyFloat (float_lit 5 2))
     (PyFloat (float_lit 7 1)) PyNone PyNone (PyFloat (float_lit 96 2))
     (PyFloat (float_lit 0 1)) (PyFloat (float_lit 3046 3)) (PyFloat (float_lit 0 1))
     (PyStr ''normal'') (PyFloat (float_neg (float_lit 10 1))) (PyFloat (float_lit 0 1))
     (PyFloat (float_lit 27255 4)) = Inl (TypeError ''float value is required'') \<and>
   Inl (TypeError ''float value is required'') \<noteq>
     (Inl ambiguous_amplitude_error :: error + PyCCLCosmologyConstants)"
  unfolding init_PyCCLCosmologyConstants_def ambiguous_amplitude_error_def
  by (simp add: require_float_def require_type_def)

text \<open>
  C2. For the mapping of the end-to-end scenario \<^verbatim>\<open>from_cosmosis_camb\<close> returns a
  record with \<^verbatim>\<open>Neff = 3.046\<close>, \<^verbatim>\<open>m_nu = 0.0\<close>, \<^verbatim>\<open>T_CMB = 2.7255\<close> and \<^verbatim>\<open>wa\<close> the
  negation of \<^verbatim>\<open>0.0\<close>, which is the negative zero and equal to \<^verbatim>\<open>0.0\<close> under
  Python's \<^verbatim>\<open>==\<close>.
\<close>

theorem end_to_end:
  "\<exists>r. from_cosmosis_camb cosmosis_params_example = Inr r \<and>
       Neff r = PyFloat (float_lit 3046 3) \<and>
       m_nu r = PyFloat (float_lit 0 1) \<and>
       wa r = PyFloat (float_neg (float_lit 0 1)) \<and>
       float_eq (float_neg (float_lit 0 1)) (float_lit 0 1) \<and>
       T_CMB r = PyFloat (float_lit 27255 4)"
  by (simp add: example_result float_lit_zero)

text \<open>
  C4. In every record that \<^verbatim>\<open>from_cosmosis_camb\<close> returns, \<^verbatim>\<open>Neff\<close> is the value of
  \<^verbatim>\<open>delta_neff\<close> plus the literal \<^verbatim>\<open>3.046\<close>, in Python's addition; for a float that is
  the rounded sum. A \<^verbatim>\<open>delta_neff\<close> equal to \<^verbatim>\<open>0.0\<close> (either zero), and a mapping without
  the key, give \<^verbatim>\<open>3.046\<close> exactly.
\<close>

theorem neff_baseline:
  assumes "from_cosmosis_camb cp = Inr r"
  shows "(\<forall>d. cp ''delta_neff'' = Some d \<longrightarrow>
            py_add d (PyFloat (float_lit 3046 3)) = Inr (Neff r)) \<and>
         (\<forall>x. cp ''delta_neff'' = Some (PyFloat x) \<longrightarrow>
            Neff r = PyFloat (float_add x (float_lit 3046 3))) \<and>
         (\<forall>x. cp ''delta_neff'' = Some (PyFloat x) \<and> float_eq x (float_lit 0 1) \<longrightarrow>
            Neff r = PyFloat (float_lit 3046 3)) \<and>
         (cp ''delta_neff'' = None \<longrightarrow> Neff r = PyFloat (float_lit 3046 3))"
proof -
  note n = from_cosmosis_camb_Neff [OF assms]
  have a: "py_add d (PyFloat (float_lit 3046 3)) = Inr (Neff r)"
    if "cp ''delta_neff'' = Some d" for d
    using n that by (simp add: get_default_def)
  have b: "Neff r = PyFloat (float_add x (float_lit 3046 3))"
    if "cp ''delta_neff'' = Some (PyFloat x)" for x
    using a [OF that] by simp
  have c: "Neff r = PyFloat (float_lit 3046 3)"
    if "cp ''delta_neff'' = Some (PyFloat x) \<and> float_eq x (float_lit 0 1)" for x
  proof -
    from that obtain s where "x = Finite s 0"
      using float_eq_zero by (auto simp: float_lit_zero)
    with b that show ?thesis by (simp add: float_add_zero_3046)
  qed
  have d: "Neff r = PyFloat (float_lit 3046 3)" if "cp ''delta_neff'' = None"
    using n that by (simp add: get_default_def example_Neff)
  from a b c d show ?thesis by blast
qed

theorem neff_baseline_witness:
  "delta_neff_example ''delta_neff'' = Some (PyFloat (float_lit 0 1)) \<and>
   float_eq (float_lit 0 1) (float_lit 0 1) \<and>
   (\<exists>r. from_cosmosis_camb delta_neff_example = Inr r \<and> Neff r = PyFloat (float_lit 3046 3)) \<and>
   cosmosis_params_example ''delta_neff'' = None \<and>
   (\<exists>r. from_cosmosis_camb cosmosis_params_example = Inr r \<and>
        Neff r = PyFloat (float_lit 3046 3))"
proof -
  have k: "delta_neff_example ''delta_neff'' = Some (PyFloat (float_lit 0 1))"
    by (simp add: delta_neff_example_def)
  have z: "float_eq (float_lit 0 1) (float_lit 0 1)" by (simp add: float_lit_zero)
  have n: "cosmosis_params_example ''delta_neff'' = None"
    by (simp add: cosmosis_params_example_def)
  from neff_baseline [OF delta_neff_example_result] k z
  have "Neff (projr (from_cosmosis_camb delta_neff_example)) = PyFloat (float_lit 3046 3)"
    by (simp add: delta_neff_example_result)
  moreover from neff_baseline [OF example_result] n
  have "Neff (projr (from_cosmosis_camb cosmosis_params_example)) = PyFloat (float_lit 3046 3)"
    by (simp add: example_result)
  ultimately show ?thesis
    using k z n by (simp add: delta_neff_example_result example_result)
qed

text \<open>
  C5. In every record that \<^verbatim>\<open>from_cosmosis_camb\<close> returns, \<^verbatim>\<open>wa\<close> is the negation of
  the raw \<^verbatim>\<open>wa\<close>, which is a float; the raw value \<^verbatim>\<open>-0.1\<close> gives \<^verbatim>\<open>0.1\<close>. The sources
  have no mapper in the other direction: mapping back is the same sign flip, Python's
  negation of the record's field, and it returns the raw value.
\<close>

theorem wa_sign_flip:
  assumes "from_cosmosis_camb cp = Inr r"
  shows "(\<exists>x. cp ''wa'' = Some (PyFloat x) \<and> wa r = PyFloat (float_neg x) \<and>
              py_neg (wa r) = Inr (PyFloat x)) \<and>
         (cp ''wa'' = Some (PyFloat (float_neg (float_lit 1 1))) \<longrightarrow>
            wa r = PyFloat (float_lit 1 1))"
proof -
  from assms obtain waa nwa where w: "cp ''wa'' = Some waa" "py_neg waa = Inr nwa"
    "type_of nwa = FloatType" "wa r = nwa"
    by (auto simp: from_cosmosis_camb_Inr_iff init_Inr_iff)
  from py_neg_float [OF w(2,3)] obtain x where x: "waa = PyFloat x" "nwa = PyFloat (float_neg x)"
    by blast
  have 1: "\<exists>x. cp ''wa'' = Some (PyFloat x) \<and> wa r = PyFloat (float_neg x) \<and>
              py_neg (wa r) = Inr (PyFloat x)"
    using w x by (simp add: float_neg_involution)
  have 2: "wa r = PyFloat (float_lit 1 1)"
    if "cp ''wa'' = Some (PyFloat (float_neg (float_lit 1 1)))"
    using w x that by (auto simp: float_neg_involution)
  from 1 2 show ?thesis by blast
qed

theorem wa_sign_flip_witness:
  "wa_example ''wa'' = Some (PyFloat (float_neg (float_lit 1 1))) \<and>
   (\<exists>r. from_cosmosis_camb wa_example = Inr r \<and> wa r = PyFloat (float_lit 1 1) \<and>
        py_neg (wa r) = Inr (PyFloat (float_neg (float_lit 1 1))))"
proof -
  have k: "wa_example ''wa'' = Some (PyFloat (float_neg (float_lit 1 1)))"
    by (simp add: wa_example_def)
  from wa_sign_flip [OF wa_example_result] k show ?thesis
    by (auto simp: wa_example_result)
qed




section \<open>Claims about the parameter block\<close>

lemma update_fresh: "k \<notin> fst ` set al \<Longrightarrow> AList.update k v al = al @ [(k, v)]"
  by (induction al) auto

lemma py_index_1: "\<not> short_list val \<Longrightarrow> type_of val = ListType \<Longrightarrow>
    py_index val 1 = Inr (fiducial val)"
  by (cases val) (auto simp: Let_def)

lemma fiducial_other: "type_of val \<noteq> ListType \<Longrightarrow> fiducial val = val"
  by (cases val) auto

lemma parse_parameters_acc:
  assumes "distinct (map fst items)" and "fst ` set items \<inter> fst ` set params = {}"
    and "\<forall>(p, val) \<in> set items. \<not> short_list val"
  shows "parse_parameters items params =
           Inr (params @ map (\<lambda>(p, val). (p, fiducial val)) items)"
  using assms
proof (induction items arbitrary: params)
  case Nil
  then show ?case by simp
next
  case (Cons a items)
  obtain p val where a: "a = (p, val)" by (cases a)
  have fresh: "p \<notin> fst ` set params" using Cons.prems(2) a by auto
  have step: "parse_parameters (a # items) params =
      parse_parameters items (AList.update p (fiducial val) params)"
    using Cons.prems(3) a by (auto simp: py_index_1 fiducial_other)
  have "parse_parameters items (params @ [(p, fiducial val)]) =
      Inr ((params @ [(p, fiducial val)]) @ map (\<lambda>(p, val). (p, fiducial val)) items)"
  proof (rule Cons.IH)
    show "distinct (map fst items)" using Cons.prems(1) by simp
    show "fst ` set items \<inter> fst ` set (params @ [(p, fiducial val)]) = {}"
      using Cons.prems(1,2) a by auto
    show "\<forall>(p, val) \<in> set items. \<not> short_list val" using Cons.prems(3) by simp
  qed
  then show ?case
    using step fresh a by (simp add: update_fresh)
qed

lemma parse_parameters_short:
  assumes "\<exists>(p, val) \<in> set items. short_list val"
  shows "parse_parameters items params = Inl (IndexError ''list index out of range'')"
  using assms
proof (induction items arbitrary: params)
  case Nil
  then show ?case by simp
next
  case (Cons a items)
  obtain p val where a: "a = (p, val)" by (cases a)
  show ?case
  proof (cases "short_list val")
    case True
    then show ?thesis using a by (cases val) (auto simp: Let_def)
  next
    case False
    then have "\<exists>(p, val) \<in> set items. short_list val" using Cons.prems a by auto
    from Cons.IH [OF this] False show ?thesis
      using a by (auto simp: py_index_1 split: sum.splits)
  qed
qed

lemma map_of_fiducial:
  "distinct (map fst items) \<Longrightarrow> (p, val) \<in> set items \<Longrightarrow>
     map_of (map (\<lambda>(p, val). (p, fiducial val)) items) p = Some (fiducial val)"
  by (induction items) (auto simp: rev_image_eqI)

text \<open>
  C9. The loop of \<^verbatim>\<open>parse\<close> over a parameter block (a dictionary, so its keys are
  distinct) in which every list has at least two elements, as a triple has, returns
  the block with the same keys in the same order, every list replaced by its element at
  index 1 and every other value unchanged. A list with fewer than two elements makes
  the subscript \<^verbatim>\<open>val[1]\<close> raise IndexError.
\<close>

theorem parse_reduces_triples:
  "(distinct (map fst items) \<and> (\<forall>(p, val) \<in> set items. \<not> short_list val) \<longrightarrow>
      (\<exists>params. parse_parameters items [] = Inr params \<and>
         map fst params = map fst items \<and>
         (\<forall>p vs. (p, PyList vs) \<in> set items \<longrightarrow> map_of params p = Some (vs ! 1)) \<and>
         (\<forall>p val. (p, val) \<in> set items \<and> type_of val \<noteq> ListType \<longrightarrow>
            map_of params p = Some val))) \<and>
   ((\<exists>(p, val) \<in> set items. short_list val) \<longrightarrow>
      parse_parameters items [] = Inl (IndexError ''list index out of range''))"
proof (intro conjI impI)
  assume h: "distinct (map fst items) \<and> (\<forall>(p, val) \<in> set items. \<not> short_list val)"
  let ?params = "map (\<lambda>(p, val). (p, fiducial val)) items"
  have r: "parse_parameters items [] = Inr ?params"
    using parse_parameters_acc [of items "[]"] h by simp
  have k: "map fst ?params = map fst items" by (induction items) auto
  have l: "map_of ?params p = Some (vs ! 1)" if "(p, PyList vs) \<in> set items" for p vs
    using map_of_fiducial [of items p "PyList vs"] h that by simp
  have n: "map_of ?params p = Some val"
    if "(p, val) \<in> set items \<and> type_of val \<noteq> ListType" for p val
    using map_of_fiducial [of items p val] h that by (simp add: fiducial_other)
  from r k l n show "\<exists>params. parse_parameters items [] = Inr params \<and>
         map fst params = map fst items \<and>
         (\<forall>p vs. (p, PyList vs) \<in> set items \<longrightarrow> map_of params p = Some (vs ! 1)) \<and>
         (\<forall>p val. (p, val) \<in> set items \<and> type_of val \<noteq> ListType \<longrightarrow>
            map_of params p = Some val)"
    by blast
next
  assume "\<exists>(p, val) \<in> set items. short_list val"
  then show "parse_parameters items [] = Inl (IndexError ''list index out of range'')"
    by (rule parse_parameters_short)
qed

theorem parse_reduces_triples_witness:
  "distinct (map fst parameters_example) \<and>
   (\<exists>params. parse_parameters parameters_example [] = Inr params \<and>
      map_of params ''omega_c'' = Some (PyFloat (float_lit 25 2)) \<and>
      map_of params ''h0'' = Some (PyFloat (float_lit 7 1)) \<and>
      map_of params ''sampler'' = Some (PyStr ''emcee'')) \<and>
   parse_parameters [(''omega_c'', PyList [PyFloat (float_lit 25 2)])] [] =
     Inl (IndexError ''list index out of range'')"
proof -
  have d: "distinct (map fst parameters_example)"
    by (simp add: parameters_example_def)
  have s: "\<forall>(p, val) \<in> set parameters_example. \<not> short_list val"
    by (simp add: parameters_example_def)
  have m: "(''omega_c'', PyList [PyFloat (float_lit 1 1), PyFloat (float_lit 25 2),
       PyFloat (float_lit 4 1)]) \<in> set parameters_example"
      "(''h0'', PyFloat (float_lit 7 1)) \<in> set parameters_example"
      "(''sampler'', PyStr ''emcee'') \<in> set parameters_example"
    by (simp_all add: parameters_example_def)
  from parse_reduces_triples [of parameters_example] d s
  obtain params where p: "parse_parameters parameters_example [] = Inr params"
    "\<forall>p vs. (p, PyList vs) \<in> set parameters_example \<longrightarrow> map_of params p = Some (vs ! 1)"
    "\<forall>p val. (p, val) \<in> set parameters_example \<and> type_of val \<noteq> ListType \<longrightarrow>
            map_of params p = Some val"
    by blast
  from p(2) m(1) have 1: "map_of params ''omega_c'' = Some (PyFloat (float_lit 25 2))"
    by fastforce
  from p(3) m(2) have 2: "map_of params ''h0'' = Some (PyFloat (float_lit 7 1))"
    by fastforce
  from p(3) m(3) have 3: "map_of params ''sampler'' = Some (PyStr ''emcee'')"
    by fastforce
  from parse_reduces_triples [of "[(''omega_c'', PyList [PyFloat (float_lit 25 2)])]"]
  have 4: "parse_parameters [(''omega_c'', PyList [PyFloat (float_lit 25 2)])] [] =
     Inl (IndexError ''list index out of range'')"
    by simp
  from d p(1) 1 2 3 4 show ?thesis by blast
qed

section \<open>Claims about the Student-t likelihood\<close>




section \<open>Claims about the conversion for the oracle\<close>

lemma bind_getattr:
  "bind_result (getattr d k) f = (case d k of None \<Rightarrow> Inl (AttributeError k) | Some v \<Rightarrow> f v)"
  by (simp add: getattr_def split: option.splits)

lemma zero_lit_falsy: "\<not> py_truth (PyFloat (float_lit 0 1))"
  by (simp add: float_lit_zero)

lemma float_eq_zero_falsy: "float_eq x (float_lit 0 1) \<Longrightarrow> \<not> py_truth (PyFloat x)"
  by (cases x) (auto simp: float_lit_zero)

lemma falsy_sigma_8_unsupplied:
  assumes "\<not> py_truth z"
  shows "convert_cosmobase_to_ccl ccl (cb(''sigma_8'' \<mapsto> z)) =
         convert_cosmobase_to_ccl ccl (cb(''sigma_8'' := None))"
  using assms
  unfolding convert_cosmobase_to_ccl_def contains_def
  by (simp add: getattr_def float_lit_zero cong: if_cong)

lemma falsy_a_s_unsupplied:
  assumes "\<not> py_truth z"
  shows "convert_cosmobase_to_ccl ccl (cb(''a_s'' \<mapsto> z)) =
         convert_cosmobase_to_ccl ccl (cb(''a_s'' := None))"
  using assms
  unfolding convert_cosmobase_to_ccl_def contains_def
  by (simp add: getattr_def float_lit_zero cong: if_cong)

lemma getattr_Inr_iff: "getattr d k = Inr v \<longleftrightarrow> d k = Some v"
  by (simp add: getattr_def split: option.splits)

lemma no_amplitude_fails:
  assumes "cb ''sigma_8'' = Some z" "\<not> py_truth z" "cb ''a_s'' = None"
  shows "isl (convert_cosmobase_to_ccl ccl cb)"
proof (cases "convert_cosmobase_to_ccl ccl cb")
  case (Inr p)
  then have False
    using assms zero_lit_falsy
    unfolding convert_cosmobase_to_ccl_def contains_def
    by (auto simp: bind_result_Inr_iff getattr_Inr_iff split: if_splits)
  then show ?thesis ..
qed simp

lemma no_amplitude_error:
  assumes "cb ''sigma_8'' = Some z" "\<not> py_truth z" "cb ''a_s'' = None"
    and "has_attributes cb [''omega_c'', ''omega_b'', ''omega_k'', ''w0'', ''wa'', ''h'', ''n_s'']"
    and "no_massive_neutrinos cb"
  shows "convert_cosmobase_to_ccl ccl cb = Inl (ValueError ''Need either sigma 8 or A_s in pyccl.'')"
proof -
  from assms(4) obtain omega_c omega_b omega_k w wa h0 n_s where
    "cb ''omega_c'' = Some omega_c" "cb ''omega_b'' = Some omega_b"
    "cb ''omega_k'' = Some omega_k" "cb ''w0'' = Some w" "cb ''wa'' = Some wa"
    "cb ''h'' = Some h0" "cb ''n_s'' = Some n_s"
    by (auto simp: has_attributes_def)
  moreover from assms(5) obtain omega_n_rel omega_n_mass omega_n where
    "cb ''omega_n_rel'' = Some omega_n_rel" "cb ''omega_n_mass'' = Some omega_n_mass"
    "py_add omega_n_rel omega_n_mass = Inr omega_n" "\<not> py_truth omega_n"
    by (auto simp: no_massive_neutrinos_def split: option.splits sum.splits)
  ultimately show ?thesis
    using assms(1-3)
    unfolding convert_cosmobase_to_ccl_def contains_def
    by (simp add: getattr_def float_lit_zero)
qed

lemma example_attributes:
  "has_attributes cosmo_base_example
     [''omega_c'', ''omega_b'', ''omega_k'', ''w0'', ''wa'', ''h'', ''n_s'']"
  by (simp add: has_attributes_def cosmo_base_example_def)

lemma example_neutrinos: "no_massive_neutrinos cosmo_base_example"
  by (simp add: no_massive_neutrinos_def cosmo_base_example_def float_lit_zero signed_def)

text \<open>
  C10. \<^verbatim>\<open>convert_cosmobase_to_ccl\<close> tests the amplitudes by their truth value. A block
  whose \<^verbatim>\<open>sigma_8\<close> equals \<^verbatim>\<open>0.0\<close> and that has no \<^verbatim>\<open>a_s\<close> is never passed to the
  oracle: the function raises, as it does for the block without \<^verbatim>\<open>sigma_8\<close>, and once
  the attributes are read and the neutrino test is passed the error is the ValueError
  "Need either sigma 8 or A_s in pyccl.". More generally a \<^verbatim>\<open>sigma_8\<close> or an \<^verbatim>\<open>a_s\<close>
  whose value is false is treated as the key not being there.
\<close>

theorem zero_amplitude_rejected:
  "(cb ''sigma_8'' = Some (PyFloat x) \<and> float_eq x (float_lit 0 1) \<and> cb ''a_s'' = None \<longrightarrow>
      isl (convert_cosmobase_to_ccl ccl cb) \<and>
      convert_cosmobase_to_ccl ccl cb = convert_cosmobase_to_ccl ccl (cb(''sigma_8'' := None)) \<and>
      (has_attributes cb [''omega_c'', ''omega_b'', ''omega_k'', ''w0'', ''wa'', ''h'', ''n_s''] \<and>
       no_massive_neutrinos cb \<longrightarrow>
         convert_cosmobase_to_ccl ccl cb =
           Inl (ValueError ''Need either sigma 8 or A_s in pyccl.''))) \<and>
   (\<not> py_truth z \<longrightarrow>
      convert_cosmobase_to_ccl ccl (cb(''sigma_8'' \<mapsto> z)) =
        convert_cosmobase_to_ccl ccl (cb(''sigma_8'' := None)) \<and>
      convert_cosmobase_to_ccl ccl (cb(''a_s'' \<mapsto> z)) =
        convert_cosmobase_to_ccl ccl (cb(''a_s'' := None)))"
proof (intro conjI impI)
  assume h: "cb ''sigma_8'' = Some (PyFloat x) \<and> float_eq x (float_lit 0 1) \<and> cb ''a_s'' = None"
  then have f: "\<not> py_truth (PyFloat x)" using float_eq_zero_falsy by blast
  show "isl (convert_cosmobase_to_ccl ccl cb)"
    using no_amplitude_fails [of cb "PyFloat x"] h f by simp
  have "cb = cb(''sigma_8'' \<mapsto> PyFloat x)" using h by (auto simp: fun_upd_idem_iff)
  then show "convert_cosmobase_to_ccl ccl cb =
      convert_cosmobase_to_ccl ccl (cb(''sigma_8'' := None))"
    using falsy_sigma_8_unsupplied [OF f, of ccl cb] by simp
  show "convert_cosmobase_to_ccl ccl cb = Inl (ValueError ''Need either sigma 8 or A_s in pyccl.'')"
    if "has_attributes cb [''omega_c'', ''omega_b'', ''omega_k'', ''w0'', ''wa'', ''h'', ''n_s''] \<and>
       no_massive_neutrinos cb"
    using no_amplitude_error [of cb "PyFloat x"] h f that by simp
next
  assume "\<not> py_truth z"
  then show "convert_cosmobase_to_ccl ccl (cb(''sigma_8'' \<mapsto> z)) =
        convert_cosmobase_to_ccl ccl (cb(''sigma_8'' := None))"
    "convert_cosmobase_to_ccl ccl (cb(''a_s'' \<mapsto> z)) =
        convert_cosmobase_to_ccl ccl (cb(''a_s'' := None))"
    by (rule falsy_sigma_8_unsupplied, rule falsy_a_s_unsupplied)
qed

theorem zero_amplitude_rejected_witness:
  "cosmo_base_example ''sigma_8'' = Some (PyFloat (float_lit 0 1)) \<and>
   cosmo_base_example ''a_s'' = None \<and>
   convert_cosmobase_to_ccl Inr cosmo_base_example =
     Inl (ValueError ''Need either sigma 8 or A_s in pyccl.'') \<and>
   convert_cosmobase_to_ccl Inr (cosmo_base_example(''sigma_8'' := None)) =
     Inl (ValueError ''Need either sigma 8 or A_s in pyccl.'')"
proof -
  have s: "cosmo_base_example ''sigma_8'' = Some (PyFloat (float_lit 0 1))"
    and a: "cosmo_base_example ''a_s'' = None"
    by (simp_all add: cosmo_base_example_def)
  have z: "float_eq (float_lit 0 1) (float_lit 0 1)" by (simp add: float_lit_zero)
  note t = zero_amplitude_rejected [of cosmo_base_example "float_lit 0 1" Inr]
  from t s a z example_attributes example_neutrinos
  have 1: "convert_cosmobase_to_ccl Inr cosmo_base_example =
      Inl (ValueError ''Need either sigma 8 or A_s in pyccl.'')"
    by blast
  from t s a z
  have 2: "convert_cosmobase_to_ccl Inr cosmo_base_example =
      convert_cosmobase_to_ccl Inr (cosmo_base_example(''sigma_8'' := None))"
    by blast
  from 1 2 s a show ?thesis by simp
qed

section \<open>Claims about the set-up of the sources\<close>

lemma setup_systematics_example:
  "setup_systematics Inr (\<lambda>sys c. c \<in> set sys)
     [(''bias'', [SourceSystematic]), (''shear_cal'', [SourceSystematic]),
      (''baryons'', [CosmologySystematic])]
     \<lparr>metadata = (), systematics = [], output_systematics = [], cosmology_systematics = [],
      source_systematics = [], sources = []\<rparr> = Inr calculator_example"
  by (simp add: setup_systematics_def calculator_example_def)

lemma attach_result:
  "attach_systematics table name ns (source, used) =
     (case filter (\<lambda>s. map_of table s = None) ns of
        [] \<Rightarrow> Inr (source\<lparr>src_systematics :=
                        src_systematics source @ map (\<lambda>s. the (map_of table s)) ns\<rparr>,
                   used \<union> set ns)
      | s # rest \<Rightarrow> Inl (ValueError (unresolved_message s name)))"
proof (induction ns arbitrary: source used)
  case Nil
  then show ?case by simp
next
  case (Cons a ns)
  show ?case
  proof (cases "map_of table a")
    case None
    then show ?thesis by simp
  next
    case (Some sys)
    then show ?thesis
      by (simp add: Cons.IH split: list.splits)
  qed
qed

lemma unresolved_Cons:
  "unresolved table ((name, source_info) # info) =
     map (\<lambda>s. (s, name)) (filter (\<lambda>s. map_of table s = None) (names_of source_info)) @
     unresolved table info"
  by (simp add: unresolved_def)

lemma referenced_Cons:
  "referenced ((name, source_info) # info) = set (names_of source_info) \<union> referenced info"
  by (simp add: referenced_def)

lemma build_sources_Inr:
  "build_sources mk md table info (used, srcs) = Inr (used', srcs') \<Longrightarrow>
     unresolved table info = [] \<and> used' = used \<union> referenced info"
proof (induction info arbitrary: used srcs)
  case Nil
  then show ?case by (simp add: unresolved_def referenced_def)
next
  case (Cons a info)
  obtain name source_info where a: "a = (name, source_info)" by (cases a)
  from Cons.prems a obtain stype source where
    s: "info_type source_info = Some stype" "mk name stype md = Inr source"
    by (auto split: option.splits sum.splits)
  from Cons.prems a s have
    f: "filter (\<lambda>s. map_of table s = None) (names_of source_info) = []"
    by (auto simp: attach_result names_of_def split: list.splits)
  with Cons.prems a s obtain source' where
    r: "build_sources mk md table info (used \<union> set (names_of source_info), srcs @ [source']) =
          Inr (used', srcs')"
    by (auto simp: attach_result names_of_def split: list.splits)
  from Cons.IH [OF r] f show ?case
    by (auto simp: a unresolved_Cons referenced_Cons)
qed

lemma build_sources_result:
  assumes "sources_constructible mk md info"
  shows "case unresolved table info of
           [] \<Rightarrow> \<exists>srcs'. build_sources mk md table info (used, srcs) =
                          Inr (used \<union> referenced info, srcs')
         | (s, n) # rest \<Rightarrow> build_sources mk md table info (used, srcs) =
                          Inl (ValueError (unresolved_message s n))"
  using assms
proof (induction info arbitrary: used srcs)
  case Nil
  then show ?case by (simp add: unresolved_def referenced_def)
next
  case (Cons a info)
  obtain name source_info where a: "a = (name, source_info)" by (cases a)
  from Cons.prems a obtain stype source where
    s: "info_type source_info = Some stype" "mk name stype md = Inr source"
    and c: "sources_constructible mk md info"
    by (cases "mk name (the (info_type source_info)) md")
      (auto simp: sources_constructible_def split: option.splits)
  show ?case
  proof (cases "filter (\<lambda>s. map_of table s = None) (names_of source_info)")
    case Nil
    with Cons.IH [OF c, of "used \<union> set (names_of source_info)"
        "srcs @ [source\<lparr>src_systematics := src_systematics source @
           map (\<lambda>s. the (map_of table s)) (names_of source_info)\<rparr>]"]
    show ?thesis
      using s a
      by (auto simp: unresolved_Cons referenced_Cons attach_result names_of_def [symmetric]
          Un_assoc split: list.splits)
  next
    case (Cons x xs)
    then show ?thesis
      using s a by (simp add: unresolved_Cons attach_result names_of_def)
  qed
qed

lemma check_used_result:
  "check_used ks used =
     (case filter (\<lambda>k. k \<notin> used) ks of
        [] \<Rightarrow> Inr ()
      | k # rest \<Rightarrow> Inl (ValueError (unused_message k)))"
  by (induction ks) auto

lemma unresolved_iff:
  "(s, n) \<in> set (unresolved table info) \<longleftrightarrow>
     (\<exists>source_info. (n, source_info) \<in> set info \<and> s \<in> set (names_of source_info) \<and>
        map_of table s = None)"
  by (auto simp: unresolved_def)

lemma unused_iff:
  "s \<in> set (unused bucket info) \<longleftrightarrow>
     s \<in> fst ` set bucket \<and>
     (\<forall>(n, source_info) \<in> set info. s \<notin> set (names_of source_info))"
  by (auto simp: unused_def referenced_def)

lemma setup_sources_unresolved_fails:
  assumes "config_sources config = Some info" and "unresolved (systematics self) info \<noteq> []"
  shows "isl (setup_sources mk config self)"
proof (cases "build_sources mk (metadata self) (systematics self) info ({}, [])")
  case (Inl e)
  then show ?thesis using assms by (simp add: setup_sources_def)
next
  case (Inr p)
  then show ?thesis using assms build_sources_Inr [of mk _ _ info "{}" "[]" "fst p" "snd p"]
    by simp
qed

lemma setup_sources_unused_fails:
  assumes "config_sources config = Some info"
    and "unused (source_systematics self) info \<noteq> []"
  shows "isl (setup_sources mk config self)"
proof (cases "build_sources mk (metadata self) (systematics self) info ({}, [])")
  case (Inl e)
  then show ?thesis using assms by (simp add: setup_sources_def)
next
  case (Inr p)
  with build_sources_Inr [of mk _ _ info "{}" "[]" "fst p" "snd p"]
  have "fst p = referenced info" by simp
  then show ?thesis
    using assms Inr
    by (cases p) (auto simp: setup_sources_def check_used_result unused_def split: list.splits)
qed

lemma example_constructible:
  "sources_constructible make_source_example (metadata calculator_example)
     (sources_example sys_names)"
  by (simp add: sources_constructible_def sources_example_def make_source_example_def)

lemma example_unresolved:
  "unresolved (systematics calculator_example) (sources_example [''photoz'']) =
     [(''photoz'', ''lens'')]"
  "unresolved (systematics calculator_example) (sources_example [''bias'']) = []"
  "unresolved (systematics calculator_example) (sources_example [''bias'', ''shear_cal'']) = []"
  by (simp_all add: unresolved_def sources_example_def calculator_example_def names_of_def)

lemma example_unused:
  "unused (source_systematics calculator_example) (sources_example [''photoz'']) =
     [''bias'', ''shear_cal'']"
  "unused (source_systematics calculator_example) (sources_example [''bias'']) =
     [''shear_cal'']"
  "unused (source_systematics calculator_example) (sources_example [''bias'', ''shear_cal'']) =
     []"
  by (simp_all add: unused_def referenced_def sources_example_def calculator_example_def
      names_of_def)

lemma example_config: "config_sources (config_example sys_names) = Some (sources_example sys_names)"
  by (simp add: config_example_def)

text \<open>
  C3. \<^verbatim>\<open>setup_sources\<close> raises whenever a source names a systematic that the table
  lacks, and whenever a key of the bucket of source systematics is named by no source:
  both are fatal. It raises at the first violation it meets. When the sources are
  built (every entry has its type and \<^verbatim>\<open>make_source\<close> returns), the error names the first
  unresolved systematic and its source, in the order of the loops; when nothing is
  unresolved, it names the first unused key of the bucket; and when there is neither,
  the set-up succeeds.
\<close>

theorem systematics_completeness:
  "config_sources config = Some info \<longrightarrow>
     (unresolved (systematics self) info \<noteq> [] \<longrightarrow> isl (setup_sources mk config self)) \<and>
     (unused (source_systematics self) info \<noteq> [] \<longrightarrow> isl (setup_sources mk config self)) \<and>
     (sources_constructible mk (metadata self) info \<longrightarrow>
        (\<forall>s n rest. unresolved (systematics self) info = (s, n) # rest \<longrightarrow>
           setup_sources mk config self = Inl (ValueError (unresolved_message s n))) \<and>
        (\<forall>s rest. unresolved (systematics self) info = [] \<and>
             unused (source_systematics self) info = s # rest \<longrightarrow>
           setup_sources mk config self = Inl (ValueError (unused_message s))) \<and>
        (unresolved (systematics self) info = [] \<and>
           unused (source_systematics self) info = [] \<longrightarrow>
           \<not> isl (setup_sources mk config self)))"
proof (intro impI conjI allI)
  assume c: "config_sources config = Some info"
  show "isl (setup_sources mk config self)" if "unresolved (systematics self) info \<noteq> []"
    using setup_sources_unresolved_fails [OF c that] .
  show "isl (setup_sources mk config self)" if "unused (source_systematics self) info \<noteq> []"
    using setup_sources_unused_fails [OF c that] .
  assume k: "sources_constructible mk (metadata self) info"
  note b = build_sources_result [OF k, of "systematics self" "{}" "[]"]
  show "setup_sources mk config self = Inl (ValueError (unresolved_message s n))"
    if "unresolved (systematics self) info = (s, n) # rest" for s n rest
    using b c that by (simp add: setup_sources_def)
  show "setup_sources mk config self = Inl (ValueError (unused_message s))"
    if "unresolved (systematics self) info = [] \<and>
        unused (source_systematics self) info = s # rest" for s rest
    using b c that by (auto simp: setup_sources_def check_used_result unused_def)
  show "\<not> isl (setup_sources mk config self)"
    if "unresolved (systematics self) info = [] \<and> unused (source_systematics self) info = []"
    using b c that by (auto simp: setup_sources_def check_used_result unused_def)
qed

theorem systematics_completeness_witness:
  "setup_sources make_source_example (config_example [''photoz'']) calculator_example =
     Inl (ValueError (unresolved_message ''photoz'' ''lens'')) \<and>
   setup_sources make_source_example (config_example [''bias'']) calculator_example =
     Inl (ValueError (unused_message ''shear_cal'')) \<and>
   \<not> isl (setup_sources make_source_example (config_example [''bias'', ''shear_cal''])
           calculator_example)"
proof -
  from systematics_completeness [of "config_example [''photoz'']"
      "sources_example [''photoz'']" calculator_example make_source_example]
    example_config example_constructible example_unresolved(1)
  have 1: "setup_sources make_source_example (config_example [''photoz'']) calculator_example =
     Inl (ValueError (unresolved_message ''photoz'' ''lens''))"
    by blast
  from systematics_completeness [of "config_example [''bias'']"
      "sources_example [''bias'']" calculator_example make_source_example]
    example_config example_constructible example_unresolved(2) example_unused(2)
  have 2: "setup_sources make_source_example (config_example [''bias'']) calculator_example =
     Inl (ValueError (unused_message ''shear_cal''))"
    by blast
  from systematics_completeness [of "config_example [''bias'', ''shear_cal'']"
      "sources_example [''bias'', ''shear_cal'']" calculator_example make_source_example]
    example_config example_constructible example_unresolved(3) example_unused(3)
  have 3: "\<not> isl (setup_sources make_source_example (config_example [''bias'', ''shear_cal''])
           calculator_example)"
    by blast
  from 1 2 3 show ?thesis by blast
qed

text \<open>
  A configuration with both violations: the source names a systematic the table lacks,
  and no source names the source systematic \<^verbatim>\<open>bias\<close>. The error names the unresolved
  systematic, not the unused one.
\<close>

theorem first_violation_counterexample:
  "''bias'' \<in> fst ` set (source_systematics calculator_example) \<and>
   ''bias'' \<notin> referenced (sources_example [''photoz'']) \<and>
   setup_sources make_source_example (config_example [''photoz'']) calculator_example =
     Inl (ValueError (unresolved_message ''photoz'' ''lens'')) \<and>
   unresolved_message ''photoz'' ''lens'' \<noteq> unused_message ''bias''"
  by (simp add: setup_sources_def config_example_def sources_example_def
      calculator_example_def make_source_example_def referenced_def names_of_def
      unresolved_message_def unused_message_def)

end
